theory Spec2Isabelle
  imports Main "HOL-Library.Word"
begin

unbundle bit_operations_syntax

section \<open>Bytes, errors and outcomes\<close>

text \<open>
  A Go \<^verbatim>\<open>byte\<close> is an Isabelle \<^typ>\<open>char\<close> (eight bits), so a Go \<^verbatim>\<open>[]byte\<close> and a
  Go \<^verbatim>\<open>string\<close> are both a \<^typ>\<open>char list\<close>.
\<close>

type_synonym byte = char

text \<open>
  The error values the package returns or compares against. \<open>EOF\<close> and
  \<open>ErrUnexpectedEOF\<close> are the two sentinels of package \<^verbatim>\<open>io\<close>; \<open>ErrNegativeSeek\<close> is what
  a seek to a negative position returns; \<open>ErrOther\<close> carries the text of an error of
  \<^verbatim>\<open>elf.NewFile\<close> or \<^verbatim>\<open>buildinfo.Read\<close>.
\<close>

datatype error =
    EOF
  | ErrUnexpectedEOF
  | ErrNegativeSeek
  | ErrProgramNotSupported
  | ErrBuildIDNotFound
  | ErrUnrecognizedExe
  | ErrNonGoBinary
  | ErrOther string

fun errorText :: "error \<Rightarrow> string" where
  "errorText EOF = ''EOF''"
| "errorText ErrUnexpectedEOF = ''unexpected EOF''"
| "errorText ErrNegativeSeek = ''bytes.Reader.Seek: negative position''"
| "errorText ErrProgramNotSupported = ''Program not supported''"
| "errorText ErrBuildIDNotFound = ''Go BuildID not found''"
| "errorText ErrUnrecognizedExe = ''unrecognized executable format''"
| "errorText ErrNonGoBinary = ''non go binary''"
| "errorText (ErrOther s) = s"

text \<open>
  A call either returns its value, returns an error, or panics (an index or a slice
  bound out of range, an allocation the runtime refuses). A panic is not an error value:
  no caller in this package recovers from it.
\<close>

datatype 'a outcome = Ok 'a | Err error | Panic

definition readSize :: nat where
  "readSize = 32 * 1024"

definition elfPrefix :: "byte list" where
  "elfPrefix = [CHR 0x7F, CHR ''E'', CHR ''L'', CHR ''F'']"

definition elfGoNote :: "byte list" where
  "elfGoNote = [CHR ''G'', CHR ''o'', CHR 0x00, CHR 0x00]"

definition elfGNUNote :: "byte list" where
  "elfGNUNote = [CHR ''G'', CHR ''N'', CHR ''U'', CHR 0x00]"

definition offsetToNoteData :: nat where
  "offsetToNoteData = 16"

definition offsetToNoteFields :: nat where
  "offsetToNoteFields = 12"

definition sizeOfNoteNameAndValue :: nat where
  "sizeOfNoteNameAndValue = 4"

definition elfGoBuildIDTag :: "32 word" where
  "elfGoBuildIDTag = 4"

definition gnuBuildIDTag :: "32 word" where
  "gnuBuildIDTag = 3"

definition archiveMagic :: "byte list" where
  "archiveMagic = ''!<arch>'' @ [CHR 0x0A]"

definition bigArchiveMagic :: "byte list" where
  "bigArchiveMagic = ''<bigaf>'' @ [CHR 0x0A]"

text \<open>\<^verbatim>\<open>strings.HasSuffix\<close> and \<^verbatim>\<open>bytes.HasPrefix\<close>.\<close>

definition HasSuffix :: "string \<Rightarrow> string \<Rightarrow> bool" where
  "HasSuffix s suf \<longleftrightarrow> length suf \<le> length s \<and> drop (length s - length suf) s = suf"

definition HasPrefix :: "byte list \<Rightarrow> byte list \<Rightarrow> bool" where
  "HasPrefix s pre \<longleftrightarrow> length pre \<le> length s \<and> take (length pre) s = pre"

definition convertError :: "error \<Rightarrow> error" where
  "convertError err =
     (let errText = errorText err in
      if HasSuffix errText ''unrecognized file format'' then ErrUnrecognizedExe
      else if HasSuffix errText ''not a Go executable'' then ErrNonGoBinary
      else err)"

section \<open>The input handle\<close>

text \<open>
  \<^verbatim>\<open>dio.ReadSeekerAt\<close> is an \<^verbatim>\<open>io.ReadSeeker\<close> that is also an \<^verbatim>\<open>io.ReaderAt\<close>. The model
  is a handle over an in-memory file, behaving as \<^verbatim>\<open>bytes.Reader\<close> and a regular
  \<^verbatim>\<open>os.File\<close> do: the bytes of the file, the cursor that \<^verbatim>\<open>Read\<close> and \<^verbatim>\<open>Seek\<close> move and
  \<^verbatim>\<open>ReadAt\<close> leaves alone, and a log of the calls made on the handle, which is what a
  statement about the reads that were attempted is about.
\<close>

datatype io_call =
    CallReadAt nat nat   \<comment> \<open>buffer length, offset\<close>
  | CallReadFull nat     \<comment> \<open>buffer length\<close>
  | CallSeek int         \<comment> \<open>offset from \<^verbatim>\<open>io.SeekStart\<close>\<close>

record handle =
  contents :: "byte list"
  cursor :: nat
  iolog :: "io_call list"

text \<open>
  \<^verbatim>\<open>r.ReadAt(buf, off)\<close> with \<^verbatim>\<open>len(buf) = n\<close>: fewer than \<open>n\<close> bytes at \<open>off\<close> is
  \<^verbatim>\<open>io.EOF\<close>. The cursor does not move.
\<close>

definition ReadAt :: "handle \<Rightarrow> nat \<Rightarrow> nat \<Rightarrow> (error + byte list) \<times> handle" where
  "ReadAt r n off =
     (let r' = r\<lparr>iolog := iolog r @ [CallReadAt n off]\<rparr>;
          got = take n (drop off (contents r))
      in if length (contents r) \<le> off \<or> length got < n then (Inl EOF, r')
         else (Inr got, r'))"

text \<open>
  \<^verbatim>\<open>io.ReadFull(r, buf)\<close> on a fresh (zeroed) buffer of length \<open>n\<close>: reads from the
  cursor until the buffer is full or the file ends. No byte at all is \<^verbatim>\<open>io.EOF\<close>, some
  but fewer than \<open>n\<close> is \<^verbatim>\<open>io.ErrUnexpectedEOF\<close>; the buffer keeps what was read, and
  the cursor has moved past it. The buffer is returned in every case, since the caller
  may go on with it.
\<close>

definition ReadFull :: "handle \<Rightarrow> nat \<Rightarrow> error option \<times> byte list \<times> handle" where
  "ReadFull r n =
     (let got = take n (drop (cursor r) (contents r));
          buf = got @ replicate (n - length got) (CHR 0x00);
          r' = r\<lparr>cursor := cursor r + length got, iolog := iolog r @ [CallReadFull n]\<rparr>
      in (if n \<le> length got then None
          else if length got = 0 then Some EOF
          else Some ErrUnexpectedEOF, buf, r'))"

text \<open>\<^verbatim>\<open>r.Seek(off, io.SeekStart)\<close>: a negative position is an error.\<close>

definition Seek :: "handle \<Rightarrow> int \<Rightarrow> error option \<times> handle" where
  "Seek r off =
     (let r' = r\<lparr>iolog := iolog r @ [CallSeek off]\<rparr>
      in if off < 0 then (Some ErrNegativeSeek, r')
         else (None, r'\<lparr>cursor := nat off\<rparr>))"

section \<open>What \<^verbatim>\<open>debug/elf\<close> hands to the scanner\<close>

datatype byte_order = LittleEndian | BigEndian

text \<open>
  \<^verbatim>\<open>ef.ByteOrder.Uint32(b)\<close>; \<open>None\<close> is the panic of the library's bounds check
  when \<open>b\<close> has fewer than four bytes.
\<close>

definition Uint32 :: "byte_order \<Rightarrow> byte list \<Rightarrow> 32 word option" where
  "Uint32 bo b =
     (if length b < 4 then None
      else Some (case bo of
        LittleEndian \<Rightarrow>
          of_char (b ! 0) OR push_bit 8 (of_char (b ! 1)) OR
          push_bit 16 (of_char (b ! 2)) OR push_bit 24 (of_char (b ! 3))
      | BigEndian \<Rightarrow>
          of_char (b ! 3) OR push_bit 8 (of_char (b ! 2)) OR
          push_bit 16 (of_char (b ! 1)) OR push_bit 24 (of_char (b ! 0))))"

text \<open>The fields of \<^verbatim>\<open>elf.Prog\<close> and \<^verbatim>\<open>elf.File\<close> that \<^verbatim>\<open>readELF\<close> reads.\<close>

record Prog =
  Type :: "32 word"
  Off :: "64 word"
  Filesz :: "64 word"
  Align :: "64 word"

record File =
  ByteOrder :: byte_order
  Progs :: "Prog list"

definition PT_NOTE :: "32 word" where
  "PT_NOTE = 4"

definition EI_CLASS :: nat where
  "EI_CLASS = 4"

definition ELFCLASS32 :: byte where
  "ELFCLASS32 = CHR 0x01"

definition ELFCLASS64 :: byte where
  "ELFCLASS64 = CHR 0x02"

section \<open>The note walk of \<^verbatim>\<open>readELF\<close>\<close>

text \<open>
  How one pass over a note segment ends: a Go note was found (\<^verbatim>\<open>readELF\<close> returns its
  value at once), the records ran out (with the GNU value seen so far), or a slice
  expression panicked.
\<close>

datatype walk = Found string | Next string | WalkPanic

text \<open>
  \<^verbatim>\<open>note[offsetToNoteData : offsetToNoteData+valSize]\<close>. The upper bound is computed in
  \<^verbatim>\<open>uint32\<close>, so it wraps; a bound below the lower one, or beyond the slice, panics.
\<close>

definition noteValue :: "byte list \<Rightarrow> 32 word \<Rightarrow> string option" where
  "noteValue note valSize =
     (let hi = unat (word_of_nat offsetToNoteData + valSize) in
      if hi < offsetToNoteData \<or> length note < hi then None
      else Some (take (hi - offsetToNoteData) (drop offsetToNoteData note)))"

text \<open>
  The guard both candidate tests share:
  \<^verbatim>\<open>nameSize == sizeOfNoteNameAndValue && offsetToNoteData+valSize <= uint32(len(note))\<close>.
\<close>

definition noteFits :: "byte list \<Rightarrow> 32 word \<Rightarrow> 32 word \<Rightarrow> bool" where
  "noteFits note nameSize valSize \<longleftrightarrow>
     nameSize = word_of_nat sizeOfNoteNameAndValue \<and>
     word_of_nat offsetToNoteData + valSize \<le> (word_of_nat (length note) :: 32 word)"

text \<open>
  Lines 175 to 181: the running offset moves past the record and, when the segment has
  an alignment, up to \<^verbatim>\<open>(off + align - 1) &^ (align - 1)\<close>; the padding is added to the
  size of the record. The result is the padded size and the new offset.
\<close>

definition alignStep :: "64 word \<Rightarrow> 64 word \<Rightarrow> 64 word \<Rightarrow> 64 word \<times> 64 word" where
  "alignStep align off notesz =
     (let off1 = off + notesz in
      if align \<noteq> 0 then
        (let alignedOff = (off1 + align - 1) AND NOT (align - 1)
         in (notesz + (alignedOff - off1), alignedOff))
      else (notesz, off1))"

text \<open>
  The inner loop, \<^verbatim>\<open>for filesz >= offsetToNoteData\<close>. The sizes are \<^verbatim>\<open>uint32\<close> and the
  offsets \<^verbatim>\<open>uint64\<close>, with Go's wrap-around. \<open>note\<close> is the part of the slice up to its
  length. The loop need not end (a record can have size zero after wrap-around), so it
  is a partial function: \<open>None\<close> is the walk that never returns.
\<close>

partial_function (option) noteLoop ::
  "byte_order \<Rightarrow> 64 word \<Rightarrow> 64 word \<Rightarrow> 64 word \<Rightarrow> byte list \<Rightarrow> string \<Rightarrow> walk option" where
  [code]: "noteLoop bo align filesz off note gnu =
     (if \<not> word_of_nat offsetToNoteData \<le> filesz then Some (Next gnu)
      else
        case (Uint32 bo note,
              Uint32 bo (drop sizeOfNoteNameAndValue note),
              Uint32 bo (drop 8 note)) of
          (Some nameSize, Some valSize, Some tag) \<Rightarrow>
            if length note < offsetToNoteFields + sizeOfNoteNameAndValue then Some WalkPanic
            else
              let nname = take sizeOfNoteNameAndValue (drop offsetToNoteFields note) in
              if noteFits note nameSize valSize \<and> tag = elfGoBuildIDTag \<and> nname = elfGoNote
              then (case noteValue note valSize of
                      None \<Rightarrow> Some WalkPanic
                    | Some v \<Rightarrow> Some (Found v))
              else
                case (if noteFits note nameSize valSize \<and> tag = gnuBuildIDTag \<and>
                         nname = elfGNUNote
                      then noteValue note valSize else Some gnu) of
                  None \<Rightarrow> Some WalkPanic
                | Some gnu' \<Rightarrow>
                    let nameSize' = (nameSize + 3) AND NOT 3;
                        valSize' = (valSize + 3) AND NOT 3;
                        notesz = (ucast (word_of_nat offsetToNoteFields + nameSize' + valSize')
                                    :: 64 word)
                    in if filesz \<le> notesz then Some (Next gnu')
                       else
                         let adv = alignStep align off notesz in
                         if length note < unat (fst adv) then Some WalkPanic
                         else noteLoop bo align (filesz - fst adv) (snd adv)
                                (drop (unat (fst adv)) note) gnu'
        | _ \<Rightarrow> Some WalkPanic)"

section \<open>The segment loop of \<^verbatim>\<open>readELF\<close>\<close>

text \<open>
  The largest allocation the Go runtime grants on a 64-bit platform (its \<^verbatim>\<open>maxAlloc\<close>,
  2^48 bytes); \<^verbatim>\<open>make\<close> with a larger length panics.
\<close>

definition maxAlloc :: "64 word" where
  "maxAlloc = 2 ^ 48"

text \<open>
  Lines 132 to 153: the bytes of a note segment. Inside the window
  (\<^verbatim>\<open>p.Off+p.Filesz < uint64(len(data))\<close>, in \<^verbatim>\<open>uint64\<close>) they are sliced from \<open>data\<close>,
  which panics when the sum has wrapped below \<^verbatim>\<open>p.Off\<close>; otherwise the handle seeks to
  \<^verbatim>\<open>int64(p.Off)\<close> and \<^verbatim>\<open>io.ReadFull\<close> fills a fresh buffer of \<^verbatim>\<open>p.Filesz\<close> bytes.
\<close>

definition loadNote :: "handle \<Rightarrow> byte list \<Rightarrow> Prog \<Rightarrow> byte list outcome \<times> handle" where
  "loadNote r data p =
     (if Off p + Filesz p < word_of_nat (length data) then
        (if Off p + Filesz p < Off p then (Panic, r)
         else (Ok (take (unat (Filesz p)) (drop (unat (Off p)) data)), r))
      else
        case Seek r (sint (Off p)) of
          (Some err, r1) \<Rightarrow> (Err err, r1)
        | (None, r1) \<Rightarrow>
            if maxAlloc < Filesz p then (Panic, r1)
            else case ReadFull r1 (unat (Filesz p)) of
                   (Some err, note, r2) \<Rightarrow> (Err err, r2)
                 | (None, note, r2) \<Rightarrow> (Ok note, r2))"

text \<open>
  One round of \<^verbatim>\<open>for _, p := range ef.Progs\<close> on a segment that is not skipped: load
  the note bytes, then walk them with \<^verbatim>\<open>filesz := p.Filesz\<close> and \<^verbatim>\<open>off := p.Off\<close>.
\<close>

definition scanSegment ::
  "byte_order \<Rightarrow> byte list \<Rightarrow> handle \<Rightarrow> Prog \<Rightarrow> string \<Rightarrow> (walk outcome \<times> handle) option" where
  "scanSegment bo data r p gnu =
     (case loadNote r data p of
        (Err err, r') \<Rightarrow> Some (Err err, r')
      | (Panic, r') \<Rightarrow> Some (Panic, r')
      | (Ok note, r') \<Rightarrow>
          (case noteLoop bo (Align p) (Filesz p) (Off p) note gnu of
             None \<Rightarrow> None
           | Some w \<Rightarrow> Some (Ok w, r')))"

text \<open>
  The loop over \<^verbatim>\<open>ef.Progs\<close> and the lines after it: a segment that is not
  \<^verbatim>\<open>PT_NOTE\<close> or is shorter than a note header is skipped; a Go note returns at once;
  at the end the GNU value is returned if it is not empty, and the empty string
  otherwise.
\<close>

fun scanProgs ::
  "byte_order \<Rightarrow> byte list \<Rightarrow> handle \<Rightarrow> Prog list \<Rightarrow> string \<Rightarrow> (string outcome \<times> handle) option"
where
  "scanProgs bo data r [] gnu = (if gnu \<noteq> [] then Some (Ok gnu, r) else Some (Ok [], r))"
| "scanProgs bo data r (p # ps) gnu =
     (if Type p \<noteq> PT_NOTE \<or> Filesz p < word_of_nat offsetToNoteData
      then scanProgs bo data r ps gnu
      else
        case scanSegment bo data r p gnu of
          None \<Rightarrow> None
        | Some (Err err, r') \<Rightarrow> Some (Err err, r')
        | Some (Panic, r') \<Rightarrow> Some (Panic, r')
        | Some (Ok WalkPanic, r') \<Rightarrow> Some (Panic, r')
        | Some (Ok (Found v), r') \<Rightarrow> Some (Ok v, r')
        | Some (Ok (Next gnu'), r') \<Rightarrow> scanProgs bo data r' ps gnu')"

section \<open>\<^verbatim>\<open>readELF\<close> and \<^verbatim>\<open>getBuildID\<close>\<close>

text \<open>
  Lines 118 to 121: \<^verbatim>\<open>shoff\<close> and \<^verbatim>\<open>shnum\<close> are zeroed in place; an index beyond the slice
  panics.
\<close>

definition zeroSectionHeaders :: "byte list \<Rightarrow> byte list option" where
  "zeroSectionHeaders data =
     (if length data \<le> 61 then None
      else Some (fold (\<lambda>i d. d[i := CHR 0x00]) [40, 41, 42, 43, 44, 45, 46, 47, 60, 61] data))"

text \<open>
  \<^verbatim>\<open>elf.NewFile(bytes.NewReader(data))\<close> belongs to the standard library; it is the
  parameter \<open>NewFile\<close>, from the bytes to an error or the decoded file.
\<close>

definition readELF ::
  "(byte list \<Rightarrow> error + File) \<Rightarrow> handle \<Rightarrow> byte list \<Rightarrow> (string outcome \<times> handle) option" where
  "readELF NewFile r data =
     (if length data \<le> EI_CLASS then Some (Panic, r)
      else if data ! EI_CLASS = ELFCLASS32 then Some (Err ErrProgramNotSupported, r)
      else
        case (if data ! EI_CLASS = ELFCLASS64 then zeroSectionHeaders data else Some data) of
          None \<Rightarrow> Some (Panic, r)
        | Some data' \<Rightarrow>
            (case NewFile data' of
               Inl err \<Rightarrow> Some (Err err, r)
             | Inr ef \<Rightarrow> scanProgs (ByteOrder ef) data' r (Progs ef) []))"

definition getBuildID ::
  "(byte list \<Rightarrow> error + File) \<Rightarrow> handle \<Rightarrow> (string outcome \<times> handle) option" where
  "getBuildID NewFile r =
     (case ReadAt r 8 0 of
        (Inl err, r1) \<Rightarrow> Some (Err err, r1)
      | (Inr buf, r1) \<Rightarrow>
          if buf \<noteq> archiveMagic then
            if buf = bigArchiveMagic then Some (Err ErrProgramNotSupported, r1)
            else
              case ReadFull r1 readSize of
                (err, data, r2) \<Rightarrow>
                  (case (if err = Some ErrUnexpectedEOF then None else err) of
                     Some e \<Rightarrow> Some (Err e, r2)
                   | None \<Rightarrow>
                       if HasPrefix data elfPrefix then readELF NewFile r2 data
                       else Some (Err ErrProgramNotSupported, r2))
          else Some (Err ErrProgramNotSupported, r1))"

section \<open>\<^verbatim>\<open>Parse\<close>\<close>

text \<open>
  \<^verbatim>\<open>debug.Module\<close> (path, version, optional replacement; the checksum is not read here)
  and the four fields of \<^verbatim>\<open>types.Library\<close> that \<^verbatim>\<open>Parse\<close> sets.
\<close>

datatype Module = Module (Path: string) (ModVersion: string) (Replace: "Module option")

record BuildInfo =
  Deps :: "Module list"

record Library =
  Name :: string
  Version :: string
  BuildID :: string
  Warnings :: "string list"

text \<open>The loop over \<^verbatim>\<open>info.Deps\<close>, appending to \<open>libs\<close>.\<close>

fun appendLibs :: "string \<Rightarrow> string list \<Rightarrow> Module list \<Rightarrow> Library list \<Rightarrow> Library list" where
  "appendLibs buildID warnings [] libs = libs"
| "appendLibs buildID warnings (dep # deps) libs =
     (if Path dep = [] then appendLibs buildID warnings deps libs
      else
        let m = (case Replace dep of Some rep \<Rightarrow> rep | None \<Rightarrow> dep)
        in appendLibs buildID warnings deps
             (libs @ [\<lparr>Name = Path m, Version = ModVersion m,
                       BuildID = buildID, Warnings = warnings\<rparr>]))"

text \<open>
  \<^verbatim>\<open>buildinfo.Read\<close> belongs to the standard library and reads through \<^verbatim>\<open>ReadAt\<close> only;
  it is the parameter \<open>Read\<close>. \<^verbatim>\<open>getBuildID\<close> is called only when there is a dependency;
  its error becomes the one warning, and its string is empty then.
\<close>

definition Parse ::
  "(handle \<Rightarrow> error + BuildInfo) \<Rightarrow> (byte list \<Rightarrow> error + File) \<Rightarrow> handle \<Rightarrow>
     (Library list outcome \<times> handle) option" where
  "Parse Read NewFile r =
     (case Read r of
        Inl err \<Rightarrow> Some (Err (convertError err), r)
      | Inr info \<Rightarrow>
          if 0 < length (Deps info) then
            (case getBuildID NewFile r of
               None \<Rightarrow> None
             | Some (Panic, r') \<Rightarrow> Some (Panic, r')
             | Some (Err err, r') \<Rightarrow>
                 Some (Ok (appendLibs [] [errorText err] (Deps info) []), r')
             | Some (Ok buildID, r') \<Rightarrow>
                 Some (Ok (appendLibs buildID [] (Deps info) []), r'))
          else Some (Ok (appendLibs [] [] (Deps info) []), r))"

section \<open>Auxiliary notions for the statements\<close>

text \<open>
  What a call returns together with the part of the handle a later call can observe: the
  bytes of the file and the cursor, without the log of past calls.
\<close>

definition unlogged :: "'a \<times> handle \<Rightarrow> 'a \<times> byte list \<times> nat" where
  "unlogged xh = (fst xh, contents (snd xh), cursor (snd xh))"

section \<open>Concrete inputs\<close>

text \<open>
  Stand-ins for the two library calls on the concrete inputs below: a decoder that
  returns a fixed file whatever the bytes, and a metadata reader that returns a fixed
  dependency list.
\<close>

definition fixedNewFile :: "File \<Rightarrow> byte list \<Rightarrow> error + File" where
  "fixedNewFile ef data = Inr ef"

definition fixedRead :: "Module list \<Rightarrow> handle \<Rightarrow> error + BuildInfo" where
  "fixedRead deps r = Inr \<lparr>Deps = deps\<rparr>"

definition bigArchiveFile :: handle where
  "bigArchiveFile = \<lparr>contents = ''<bigaf>'' @ [CHR 0x0A] @ ''rest'', cursor = 0, iolog = []\<rparr>"

text \<open>
  An archive whose first member, at the cursor, starts with the ELF magic of a 64-bit
  object.
\<close>

definition archiveFile :: handle where
  "archiveFile =
     \<lparr>contents = ''!<arch>'' @ [CHR 0x0A, CHR 0x7F] @ ''ELF'' @ [CHR 0x02, CHR 0x01, CHR 0x01],
      cursor = 8, iolog = []\<rparr>"

definition someDeps :: "Module list" where
  "someDeps =
     [Module [] ''Devel'' None,
      Module ''example.com/a'' ''v1.0.0'' None,
      Module ''example.com/b'' ''v2.0.0'' (Some (Module ''example.com/c'' ''v3.0.0'' None))]"

text \<open>
  A little-endian note segment of 40 bytes with two records: a record of type 1 named
  \<^verbatim>\<open>XYZ\0\<close> with a four-byte value (20 bytes), then a Go build-ID note with the
  three-byte value \<^verbatim>\<open>id!\<close>, padded to four (20 bytes).
\<close>

definition twoNotes :: "byte list" where
  "twoNotes =
     [CHR 0x04, CHR 0x00, CHR 0x00, CHR 0x00,  CHR 0x04, CHR 0x00, CHR 0x00, CHR 0x00,
      CHR 0x01, CHR 0x00, CHR 0x00, CHR 0x00,  CHR ''X'', CHR ''Y'', CHR ''Z'', CHR 0x00,
      CHR ''a'', CHR ''b'', CHR ''c'', CHR ''d'',
      CHR 0x04, CHR 0x00, CHR 0x00, CHR 0x00,  CHR 0x03, CHR 0x00, CHR 0x00, CHR 0x00,
      CHR 0x04, CHR 0x00, CHR 0x00, CHR 0x00,  CHR ''G'', CHR ''o'', CHR 0x00, CHR 0x00,
      CHR ''i'', CHR ''d'', CHR ''!'', CHR 0x00]"

text \<open>
  A 16-byte segment holding the header of a Go build-ID note whose value size is
  \<^verbatim>\<open>0xFFFFFFF0\<close>, and a 24-byte segment of zeros (an empty record of 12 bytes followed
  by 12 more bytes).
\<close>

definition wrappedValueNote :: "byte list" where
  "wrappedValueNote =
     [CHR 0x04, CHR 0x00, CHR 0x00, CHR 0x00,  CHR 0xF0, CHR 0xFF, CHR 0xFF, CHR 0xFF,
      CHR 0x04, CHR 0x00, CHR 0x00, CHR 0x00,  CHR ''G'', CHR ''o'', CHR 0x00, CHR 0x00]"

definition paddedPastEndNote :: "byte list" where
  "paddedPastEndNote = replicate 24 (CHR 0x00)"

text \<open>
  The 32 KiB window of a 64-bit ELF file that, after the magic and the class byte, holds
  \<open>note\<close> at offset \<open>off\<close> and zeros everywhere else.
\<close>

definition windowWith :: "nat \<Rightarrow> byte list \<Rightarrow> byte list" where
  "windowWith off note =
     elfPrefix @ [ELFCLASS64] @ replicate (off - 5) (CHR 0x00) @ note @
     replicate (readSize - off - length note) (CHR 0x00)"

text \<open>
  A Go build-ID note with the value \<^verbatim>\<open>id!\<close> (20 bytes, little-endian), and a 64-bit ELF
  file of 50020 bytes that holds it at offset 50000, beyond the 32 KiB window, with the
  program header that describes it.
\<close>

definition goNote :: "byte list" where
  "goNote =
     [CHR 0x04, CHR 0x00, CHR 0x00, CHR 0x00,  CHR 0x03, CHR 0x00, CHR 0x00, CHR 0x00,
      CHR 0x04, CHR 0x00, CHR 0x00, CHR 0x00,  CHR ''G'', CHR ''o'', CHR 0x00, CHR 0x00,
      CHR ''i'', CHR ''d'', CHR ''!'', CHR 0x00]"

definition lateNoteFile :: handle where
  "lateNoteFile =
     \<lparr>contents = elfPrefix @ [ELFCLASS64] @ replicate 49995 (CHR 0x00) @ goNote,
      cursor = 0, iolog = []\<rparr>"

definition lateNoteProg :: Prog where
  "lateNoteProg = \<lparr>Type = PT_NOTE, Off = 50000, Filesz = 20, Align = 4\<rparr>"



section \<open>Properties of \<^verbatim>\<open>Parse\<close>\<close>

lemma appendLibs_eq:
  "appendLibs buildID warnings deps libs =
     libs @ map (\<lambda>dep. \<lparr>Name = Path (case Replace dep of Some rep \<Rightarrow> rep | None \<Rightarrow> dep),
                         Version = ModVersion (case Replace dep of Some rep \<Rightarrow> rep | None \<Rightarrow> dep),
                         BuildID = buildID, Warnings = warnings\<rparr>)
              (filter (\<lambda>dep. Path dep \<noteq> []) deps)"
  by (induction deps arbitrary: libs) (simp_all add: Let_def)


text \<open>
  Claim C4. When \<^verbatim>\<open>buildinfo.Read\<close> succeeds and \<^verbatim>\<open>getBuildID\<close> returns an error on the
  handle, \<^verbatim>\<open>Parse\<close> still returns the whole library list (one record for each dependency
  with a non-empty path); every record has the empty build ID and the text of the error
  as its only warning.
\<close>

theorem Parse_buildID_error:
  assumes "Read r = Inr info" and "getBuildID NewFile r = Some (Err err, r')"
  shows "\<exists>r''. Parse Read NewFile r =
           Some (Ok (map (\<lambda>dep. \<lparr>Name = Path (case Replace dep of Some rep \<Rightarrow> rep | None \<Rightarrow> dep),
                         Version = ModVersion (case Replace dep of Some rep \<Rightarrow> rep | None \<Rightarrow> dep),
                         BuildID = [], Warnings = [errorText err]\<rparr>)
                     (filter (\<lambda>dep. Path dep \<noteq> []) (Deps info))), r'')"
  using assms unfolding Parse_def
  by (cases "Deps info") (simp_all add: appendLibs_eq)

section \<open>The archive magics in \<^verbatim>\<open>getBuildID\<close>\<close>

lemma take_eq_length: "take n xs = ys \<Longrightarrow> length ys = n \<Longrightarrow> n \<le> length xs"
  by (metis length_take min_def nat_le_linear)

lemma ReadAt_prefix:
  "take 8 (contents r) = m \<Longrightarrow> length m = 8 \<Longrightarrow>
   ReadAt r 8 0 = (Inr m, r\<lparr>iolog := iolog r @ [CallReadAt 8 0]\<rparr>)"
  by (frule (1) take_eq_length) (auto simp: ReadAt_def Let_def)

text \<open>
  Claim C6. On a file whose first eight bytes are \<^verbatim>\<open><bigaf>\n\<close>, \<^verbatim>\<open>getBuildID\<close> returns
  the not-supported error, and the only call it has made on the handle is the
  \<^verbatim>\<open>ReadAt\<close> of eight bytes at offset 0: nothing beyond the prefix is read and the
  cursor has not moved.
\<close>

theorem getBuildID_bigArchive:
  "take 8 (contents r) = bigArchiveMagic \<Longrightarrow>
   getBuildID NewFile r =
     Some (Err ErrProgramNotSupported, r\<lparr>iolog := iolog r @ [CallReadAt 8 0]\<rparr>)"
proof -
  assume "take 8 (contents r) = bigArchiveMagic"
  then have "ReadAt r 8 0 = (Inr bigArchiveMagic, r\<lparr>iolog := iolog r @ [CallReadAt 8 0]\<rparr>)"
    by (rule ReadAt_prefix) (simp add: bigArchiveMagic_def)
  moreover have "bigArchiveMagic \<noteq> archiveMagic"
    by (simp add: bigArchiveMagic_def archiveMagic_def)
  ultimately show ?thesis
    by (simp add: getBuildID_def)
qed

text \<open>
  Claim C3, as amended. On a file whose first eight bytes are \<^verbatim>\<open>!<arch>\n\<close>,
  \<^verbatim>\<open>getBuildID\<close> does not look at any member: it returns the not-supported error after
  the one \<^verbatim>\<open>ReadAt\<close> of the prefix, as it does for a big archive.
\<close>

theorem getBuildID_archive:
  "take 8 (contents r) = archiveMagic \<Longrightarrow>
   getBuildID NewFile r =
     Some (Err ErrProgramNotSupported, r\<lparr>iolog := iolog r @ [CallReadAt 8 0]\<rparr>)"
proof -
  assume "take 8 (contents r) = archiveMagic"
  then have "ReadAt r 8 0 = (Inr archiveMagic, r\<lparr>iolog := iolog r @ [CallReadAt 8 0]\<rparr>)"
    by (rule ReadAt_prefix) (simp add: archiveMagic_def)
  then show ?thesis
    by (simp add: getBuildID_def)
qed

section \<open>Arithmetic of the walk\<close>

lemma and_not_mask_eq_minus: "(w :: 'a::len word) AND NOT (mask n) = w - take_bit n w"
proof -
  have "w AND NOT (mask n) = push_bit n (drop_bit n w)"
    by (rule bit_word_eqI) (auto simp: bit_simps)
  moreover have "push_bit n (drop_bit n w) + take_bit n w = w"
    by (rule bits_ident)
  ultimately show ?thesis
    by (simp add: algebra_simps)
qed

lemma unat_and_not_mask:
  "unat ((w :: 'a::len word) AND NOT (mask n)) = unat w div 2 ^ n * 2 ^ n"
proof -
  have "take_bit n w \<le> w"
    by (simp add: unsigned_take_bit_eq word_le_nat_alt)
  then have "unat (w - take_bit n w) = unat w - unat (take_bit n w)"
    by (rule unat_sub)
  moreover have "unat (take_bit n w) = unat w mod 2 ^ n"
    using unsigned_take_bit_eq [of n w, where 'a = nat] by (simp only: take_bit_eq_mod)
  ultimately show ?thesis
    by (simp only: and_not_mask_eq_minus minus_mod_eq_div_mult)
qed

lemma align4_unat:
  assumes "unat (w :: 32 word) + 3 < 2 ^ 32"
  shows "unat ((w + 3) AND NOT 3) = (unat w + 3) div 4 * 4"
proof -
  have "(3 :: 32 word) = mask 2"
    by (simp add: mask_eq_exp_minus_1)
  moreover have "unat (w + 3) = unat w + 3"
    using assms by (simp add: unat_word_ariths)
  ultimately show ?thesis
    using unat_and_not_mask [of "w + 3" 2] by simp
qed

lemma unat_2p: "n < LENGTH('a) \<Longrightarrow> unat (2 ^ n :: 'a::len word) = 2 ^ n"
  by (simp add: of_nat_inverse)

lemma unat_mask_lt: "n < LENGTH('a) \<Longrightarrow> unat (mask n :: 'a::len word) = 2 ^ n - 1"
proof -
  assume n: "n < LENGTH('a)"
  then have "(2 ^ n :: 'a word) \<noteq> 0"
    by simp
  then have "unat (2 ^ n - 1 :: 'a word) = unat (2 ^ n :: 'a word) - 1"
    by (rule unat_minus_one)
  with n show ?thesis
    by (simp add: mask_eq_exp_minus_1 unat_2p)
qed

text \<open>
  For an alignment that is a power of two, \<^verbatim>\<open>(x + align - 1) &^ (align - 1)\<close> is \<open>x\<close>
  rounded up to a multiple of the alignment, as long as the sum does not wrap.
\<close>

lemma alignUp_unat:
  assumes "n < 64" and "unat (x :: 64 word) + 2 ^ n \<le> 2 ^ 64"
  shows "unat ((x + 2 ^ n - 1) AND NOT (2 ^ n - 1)) = (unat x + 2 ^ n - 1) div 2 ^ n * 2 ^ n"
proof -
  have m: "x + 2 ^ n - 1 = x + mask n" "(2 ^ n - 1 :: 64 word) = mask n"
    by (simp_all add: mask_eq_exp_minus_1)
  have u: "unat (mask n :: 64 word) = 2 ^ n - 1"
    using assms(1) by (simp add: unat_mask_lt)
  have "unat x + unat (mask n :: 64 word) < 2 ^ LENGTH(64)"
    using assms(2) by (simp add: u)
  then have "unat (x + mask n) = unat x + unat (mask n :: 64 word)"
    by (simp only: unat_add_lem)
  then have "unat (x + mask n) = unat x + 2 ^ n - 1"
    by (simp add: u)
  then show ?thesis
    using unat_and_not_mask [of "x + mask n" n] by (simp only: m)
qed

section \<open>One round of the note walk\<close>

text \<open>
  Claim C2, as amended. When the walk goes on to a next record (the record at hand is not
  a Go build-ID note, its value slice does not panic, and it does not fill the rest of
  the segment), it resumes \<open>notesz + pad\<close> bytes further, where \<open>notesz\<close> is
  \<^verbatim>\<open>12 + align4(nameSize) + align4(valSize)\<close> in \<^verbatim>\<open>uint32\<close> arithmetic, with
  \<^verbatim>\<open>align4(x) = (x + 3) &^ 3\<close>, and \<open>pad\<close> is zero for alignment 0 and otherwise what
  takes the running offset to \<^verbatim>\<open>(off + align - 1) &^ (align - 1)\<close>. For an alignment that
  is a power of two this new offset is the old one rounded up to the next multiple of
  the alignment. The header counts for 12 bytes, not 16.
\<close>

theorem noteLoop_advance:
  assumes "word_of_nat offsetToNoteData \<le> filesz"
    and "offsetToNoteData \<le> length note"
    and "Uint32 bo note = Some nameSize"
    and "Uint32 bo (drop sizeOfNoteNameAndValue note) = Some valSize"
    and "Uint32 bo (drop 8 note) = Some tag"
    and "\<not> (noteFits note nameSize valSize \<and> tag = elfGoBuildIDTag \<and>
             take sizeOfNoteNameAndValue (drop offsetToNoteFields note) = elfGoNote)"
    and "(if noteFits note nameSize valSize \<and> tag = gnuBuildIDTag \<and>
             take sizeOfNoteNameAndValue (drop offsetToNoteFields note) = elfGNUNote
          then noteValue note valSize else Some gnu) = Some gnu'"
    and "notesz = ucast (12 + ((nameSize + 3) AND NOT 3) + ((valSize + 3) AND NOT 3))"
    and "notesz < filesz"
    and "pad = (if align \<noteq> 0
                then ((off + notesz + align - 1) AND NOT (align - 1)) - (off + notesz) else 0)"
    and "unat (notesz + pad) \<le> length note"
  shows "noteLoop bo align filesz off note gnu =
           noteLoop bo align (filesz - (notesz + pad)) (off + notesz + pad)
             (drop (unat (notesz + pad)) note) gnu' \<and>
         (\<forall>n < 64. align = 2 ^ n \<longrightarrow> unat (off + notesz) + 2 ^ n \<le> 2 ^ 64 \<longrightarrow>
            unat (off + notesz + pad) = (unat (off + notesz) + 2 ^ n - 1) div 2 ^ n * 2 ^ n)"
proof
  show "noteLoop bo align filesz off note gnu =
           noteLoop bo align (filesz - (notesz + pad)) (off + notesz + pad)
             (drop (unat (notesz + pad)) note) gnu'"
    using assms
    by (subst noteLoop.simps)
       (auto simp: offsetToNoteData_def offsetToNoteFields_def sizeOfNoteNameAndValue_def
          alignStep_def Let_def not_le)
next
  show "\<forall>n < 64. align = 2 ^ n \<longrightarrow> unat (off + notesz) + 2 ^ n \<le> 2 ^ 64 \<longrightarrow>
            unat (off + notesz + pad) = (unat (off + notesz) + 2 ^ n - 1) div 2 ^ n * 2 ^ n"
  proof (intro allI impI)
    fix n :: nat
    assume n: "n < 64" and a: "align = 2 ^ n" and b: "unat (off + notesz) + 2 ^ n \<le> 2 ^ 64"
    have "align \<noteq> 0"
      using n by (simp add: a)
    then have "off + notesz + pad = (off + notesz + 2 ^ n - 1) AND NOT (2 ^ n - 1)"
      by (simp add: assms(10) a)
    then show "unat (off + notesz + pad) = (unat (off + notesz) + 2 ^ n - 1) div 2 ^ n * 2 ^ n"
      using alignUp_unat [OF n b] by simp
  qed
qed

section \<open>Slice bounds in the note walk\<close>

text \<open>
  Claim C10 does not hold of the code: two slice expressions of the walk can be reached
  with bounds out of range, and the walk panics. In \<open>wrappedValueNote\<close> the sum
  \<^verbatim>\<open>offsetToNoteData+valSize\<close> wraps to 0 in \<^verbatim>\<open>uint32\<close>, passes the test against
  \<^verbatim>\<open>len(note)\<close>, and \<^verbatim>\<open>note[16:0]\<close> panics. In \<open>paddedPastEndNote\<close>, with alignment 32
  at offset 4096, the record of 12 bytes passes \<^verbatim>\<open>filesz <= notesz\<close>, the padding then
  raises \<open>notesz\<close> to 32, and \<^verbatim>\<open>note[32:]\<close> panics on the 24 bytes; so does \<^verbatim>\<open>readELF\<close> on
  a window that holds this segment.
\<close>

theorem noteLoop_panics:
  "noteLoop LittleEndian 4 16 4096 wrappedValueNote [] = Some WalkPanic \<and>
   noteLoop LittleEndian 32 24 4096 paddedPastEndNote [] = Some WalkPanic \<and>
   readELF (fixedNewFile \<lparr>ByteOrder = LittleEndian,
              Progs = [\<lparr>Type = PT_NOTE, Off = 4096, Filesz = 24, Align = 32\<rparr>]\<rparr>)
     r (windowWith 4096 paddedPastEndNote) = Some (Panic, r)"
proof -
  have a: "noteLoop LittleEndian 4 16 4096 wrappedValueNote [] = Some WalkPanic"
    by (subst noteLoop.simps)
       (simp add: wrappedValueNote_def Uint32_def offsetToNoteData_def
          sizeOfNoteNameAndValue_def offsetToNoteFields_def noteFits_def noteValue_def
          elfGoBuildIDTag_def elfGoNote_def)
  have b: "noteLoop LittleEndian 32 24 4096 (replicate 24 (CHR 0x00)) [] = Some WalkPanic"
    by (subst noteLoop.simps)
       (simp add: Uint32_def offsetToNoteData_def sizeOfNoteNameAndValue_def
          offsetToNoteFields_def noteFits_def noteValue_def elfGoBuildIDTag_def elfGoNote_def
          gnuBuildIDTag_def elfGNUNote_def alignStep_def Let_def)
  have c: "readELF (fixedNewFile \<lparr>ByteOrder = LittleEndian,
              Progs = [\<lparr>Type = PT_NOTE, Off = 4096, Filesz = 24, Align = 32\<rparr>]\<rparr>)
            r (windowWith 4096 paddedPastEndNote) = Some (Panic, r)"
    by (simp add: readELF_def EI_CLASS_def windowWith_def elfPrefix_def ELFCLASS64_def
          ELFCLASS32_def zeroSectionHeaders_def fixedNewFile_def PT_NOTE_def
          offsetToNoteData_def scanSegment_def loadNote_def readSize_def
          paddedPastEndNote_def b)
  from a b c show ?thesis
    by (simp add: paddedPastEndNote_def)
qed

section \<open>The handle across calls\<close>

lemma unlogged_eq_iff:
  "unlogged (x, h) = unlogged (y, k) \<longleftrightarrow> x = y \<and> contents h = contents k \<and> cursor h = cursor k"
  by (simp add: unlogged_def)

lemma loadNote_unlogged:
  assumes "contents r1 = contents r2" and "cursor r1 = cursor r2"
  shows "unlogged (loadNote r1 data p) = unlogged (loadNote r2 data p)"
  using assms
  by (simp add: loadNote_def Seek_def ReadFull_def Let_def unlogged_def split: prod.splits option.splits)

lemma loadNote_contents: "contents (snd (loadNote r data p)) = contents r"
  by (simp add: loadNote_def Seek_def ReadFull_def Let_def split: prod.splits option.splits)

lemma scanSegment_unlogged:
  assumes "contents r1 = contents r2" and "cursor r1 = cursor r2"
  shows "map_option unlogged (scanSegment bo data r1 p gnu) =
         map_option unlogged (scanSegment bo data r2 p gnu)"
proof -
  obtain x1 h1 where l1: "loadNote r1 data p = (x1, h1)" by (cases "loadNote r1 data p")
  obtain x2 h2 where l2: "loadNote r2 data p = (x2, h2)" by (cases "loadNote r2 data p")
  from loadNote_unlogged [OF assms, of data p] l1 l2
  have "x1 = x2" "contents h1 = contents h2" "cursor h1 = cursor h2"
    by (simp_all add: unlogged_def)
  then show ?thesis
    by (simp add: scanSegment_def l1 l2 unlogged_def split: outcome.splits option.splits)
qed

lemma scanSegment_contents:
  "scanSegment bo data r p gnu = Some (x, r') \<Longrightarrow> contents r' = contents r"
  using loadNote_contents [of r data p]
  by (auto simp: scanSegment_def split: prod.splits outcome.splits option.splits)

lemma scanProgs_unlogged:
  assumes "contents r1 = contents r2" and "cursor r1 = cursor r2"
  shows "map_option unlogged (scanProgs bo data r1 ps gnu) =
         map_option unlogged (scanProgs bo data r2 ps gnu)"
  using assms
proof (induction ps arbitrary: r1 r2 gnu)
  case Nil
  then show ?case by (simp add: unlogged_def)
next
  case (Cons p ps)
  show ?case
  proof (cases "Type p \<noteq> PT_NOTE \<or> Filesz p < word_of_nat offsetToNoteData")
    case True
    then show ?thesis using Cons.IH [OF Cons.prems] by simp
  next
    case False
    note seg = scanSegment_unlogged [OF Cons.prems, of bo data p gnu]
    show ?thesis
    proof (cases "scanSegment bo data r1 p gnu")
      case None
      with seg have "scanSegment bo data r2 p gnu = None" by simp
      with None False show ?thesis by simp
    next
      case (Some a)
      obtain x h1 where a: "a = (x, h1)" by (cases a)
      from seg Some a obtain h2 where s2: "scanSegment bo data r2 p gnu = Some (x, h2)"
        and h: "contents h1 = contents h2" "cursor h1 = cursor h2"
        by (cases "scanSegment bo data r2 p gnu") (auto simp: unlogged_def)
      show ?thesis
        using False Some a s2 h Cons.IH [OF h]
        by (simp add: unlogged_def split: outcome.splits walk.splits)
    qed
  qed
qed

lemma scanProgs_contents:
  "scanProgs bo data r ps gnu = Some (x, r') \<Longrightarrow> contents r' = contents r"
proof (induction ps arbitrary: r gnu)
  case Nil
  then show ?case by (simp split: if_splits)
next
  case (Cons p ps)
  show ?case
  proof (cases "Type p \<noteq> PT_NOTE \<or> Filesz p < word_of_nat offsetToNoteData")
    case True
    with Cons show ?thesis by simp
  next
    case False
    with Cons.prems obtain w h where s: "scanSegment bo data r p gnu = Some (w, h)"
      by (auto split: option.splits)
    then have c: "contents h = contents r" by (rule scanSegment_contents)
    show ?thesis
      using False Cons.prems s c Cons.IH
      by (auto split: outcome.splits walk.splits)
  qed
qed

lemma readELF_unlogged:
  assumes "contents r1 = contents r2" and "cursor r1 = cursor r2"
  shows "map_option unlogged (readELF NewFile r1 data) =
         map_option unlogged (readELF NewFile r2 data)"
  using assms scanProgs_unlogged [OF assms]
  by (simp add: readELF_def unlogged_def split: option.splits sum.splits)

lemma readELF_contents:
  "readELF NewFile r data = Some (x, r') \<Longrightarrow> contents r' = contents r"
  by (auto simp: readELF_def split: if_splits option.splits sum.splits dest: scanProgs_contents)

lemma ReadAt_unlogged:
  assumes "contents r1 = contents r2" and "cursor r1 = cursor r2"
  shows "unlogged (ReadAt r1 n off) = unlogged (ReadAt r2 n off)"
  using assms by (simp add: ReadAt_def Let_def unlogged_def)

lemma ReadFull_unlogged:
  assumes "contents r1 = contents r2" and "cursor r1 = cursor r2"
  shows "fst (ReadFull r1 n) = fst (ReadFull r2 n) \<and>
         unlogged (snd (ReadFull r1 n)) = unlogged (snd (ReadFull r2 n))"
  using assms by (simp add: ReadFull_def Let_def unlogged_def)

lemma getBuildID_unlogged:
  assumes "contents r1 = contents r2" and "cursor r1 = cursor r2"
  shows "map_option unlogged (getBuildID NewFile r1) =
         map_option unlogged (getBuildID NewFile r2)"
proof -
  obtain x h1 h2 where a: "ReadAt r1 8 0 = (x, h1)" "ReadAt r2 8 0 = (x, h2)"
    and h: "contents h1 = contents h2" "cursor h1 = cursor h2"
    using ReadAt_unlogged [OF assms, of 8 0]
    by (cases "ReadAt r1 8 0"; cases "ReadAt r2 8 0") (simp add: unlogged_def)
  obtain e d k1 k2 where f: "ReadFull h1 readSize = (e, d, k1)" "ReadFull h2 readSize = (e, d, k2)"
    and k: "contents k1 = contents k2" "cursor k1 = cursor k2"
    using ReadFull_unlogged [OF h, of readSize]
    by (cases "ReadFull h1 readSize"; cases "ReadFull h2 readSize") (simp add: unlogged_def)
  show ?thesis
    using h k readELF_unlogged [OF k, of NewFile d]
    by (simp add: getBuildID_def a f unlogged_def split: sum.splits option.splits)
qed

lemma getBuildID_contents:
  "getBuildID NewFile r = Some (x, r') \<Longrightarrow> contents r' = contents r"
  by (auto simp: getBuildID_def ReadAt_def ReadFull_def Let_def
        split: if_splits option.splits sum.splits prod.splits dest!: readELF_contents)

text \<open>
  Claim C9. If \<^verbatim>\<open>getBuildID\<close> returns on a handle, then a second call on the handle it
  leaves behind, with the cursor put back where it was before the first call, returns
  the same string or the same error (or panics where the first call did). The file is
  not written by the call, and nothing the call does depends on the calls made before.
\<close>

theorem getBuildID_idempotent:
  assumes "getBuildID NewFile r = Some (res, r')"
  shows "\<exists>r''. getBuildID NewFile (r'\<lparr>cursor := cursor r\<rparr>) = Some (res, r'')"
proof -
  have "contents r' = contents r"
    using assms by (rule getBuildID_contents)
  then have "map_option unlogged (getBuildID NewFile (r'\<lparr>cursor := cursor r\<rparr>)) =
             map_option unlogged (getBuildID NewFile r)"
    by (intro getBuildID_unlogged) simp_all
  with assms show ?thesis
    by (cases "getBuildID NewFile (r'\<lparr>cursor := cursor r\<rparr>)") (auto simp: unlogged_def)
qed

section \<open>A segment beyond the window\<close>





section \<open>The theorems at concrete inputs\<close>

theorem getBuildID_bigArchive_witness:
  "take 8 (contents bigArchiveFile) = bigArchiveMagic \<and>
   getBuildID (fixedNewFile \<lparr>ByteOrder = LittleEndian, Progs = []\<rparr>) bigArchiveFile =
     Some (Err ErrProgramNotSupported, bigArchiveFile\<lparr>iolog := [CallReadAt 8 0]\<rparr>)"
proof -
  have h: "take 8 (contents bigArchiveFile) = bigArchiveMagic"
    by (simp add: bigArchiveFile_def bigArchiveMagic_def)
  show ?thesis
    using h getBuildID_bigArchive [OF h, of "fixedNewFile \<lparr>ByteOrder = LittleEndian, Progs = []\<rparr>"]
    by (simp add: bigArchiveFile_def)
qed

theorem getBuildID_archive_witness:
  "take 8 (contents archiveFile) = archiveMagic \<and>
   getBuildID (fixedNewFile \<lparr>ByteOrder = LittleEndian, Progs = []\<rparr>) archiveFile =
     Some (Err ErrProgramNotSupported, archiveFile\<lparr>iolog := [CallReadAt 8 0]\<rparr>)"
proof -
  have h: "take 8 (contents archiveFile) = archiveMagic"
    by (simp add: archiveFile_def archiveMagic_def)
  show ?thesis
    using h getBuildID_archive [OF h, of "fixedNewFile \<lparr>ByteOrder = LittleEndian, Progs = []\<rparr>"]
    by (simp add: archiveFile_def)
qed

text \<open>
  Claim C3 as it is written fails on \<open>archiveFile\<close>: the member at the cursor is a
  64-bit ELF object without notes, for which the scan would return the empty build ID,
  yet the result is the not-supported error and no read of the member was attempted.
\<close>

theorem getBuildID_archive_counterexample:
  "getBuildID (fixedNewFile \<lparr>ByteOrder = LittleEndian, Progs = []\<rparr>) archiveFile =
     Some (Err ErrProgramNotSupported, archiveFile\<lparr>iolog := [CallReadAt 8 0]\<rparr>) \<and>
   CallReadFull readSize \<notin> set (iolog (archiveFile\<lparr>iolog := [CallReadAt 8 0]\<rparr>))"
proof -
  have "ReadAt archiveFile 8 0 = (Inr archiveMagic, archiveFile\<lparr>iolog := [CallReadAt 8 0]\<rparr>)"
    using ReadAt_prefix [of archiveFile archiveMagic]
    by (simp add: archiveFile_def archiveMagic_def)
  then show ?thesis
    by (simp add: getBuildID_def)
qed



theorem Parse_buildID_error_witness:
  "fixedRead someDeps bigArchiveFile = Inr \<lparr>Deps = someDeps\<rparr> \<and>
   getBuildID (fixedNewFile \<lparr>ByteOrder = LittleEndian, Progs = []\<rparr>) bigArchiveFile =
     Some (Err ErrProgramNotSupported, bigArchiveFile\<lparr>iolog := [CallReadAt 8 0]\<rparr>) \<and>
   (\<exists>r''. Parse (fixedRead someDeps) (fixedNewFile \<lparr>ByteOrder = LittleEndian, Progs = []\<rparr>)
            bigArchiveFile =
          Some (Ok [\<lparr>Name = ''example.com/a'', Version = ''v1.0.0'', BuildID = [],
                     Warnings = [''Program not supported'']\<rparr>,
                    \<lparr>Name = ''example.com/c'', Version = ''v3.0.0'', BuildID = [],
                     Warnings = [''Program not supported'']\<rparr>], r''))"
proof -
  have f: "fixedRead someDeps bigArchiveFile = Inr \<lparr>Deps = someDeps\<rparr>"
    by (simp add: fixedRead_def)
  have g: "getBuildID (fixedNewFile \<lparr>ByteOrder = LittleEndian, Progs = []\<rparr>) bigArchiveFile =
             Some (Err ErrProgramNotSupported, bigArchiveFile\<lparr>iolog := [CallReadAt 8 0]\<rparr>)"
    by (simp add: getBuildID_def ReadAt_def bigArchiveFile_def bigArchiveMagic_def
        archiveMagic_def)
  show ?thesis
    using f g Parse_buildID_error [where Read = "fixedRead someDeps" and r = bigArchiveFile, OF f g]
    by (simp add: someDeps_def)
qed

text \<open>
  Claim C2 as it is written fails on \<open>twoNotes\<close>: the first record has name size 4 and
  value size 4, and a walk resumed \<open>16 + 4 + 4 = 24\<close> bytes further finds no note,
  while the walk from the start returns the Go note that begins \<open>12 + 4 + 4 = 20\<close>
  bytes in.
\<close>

theorem noteLoop_advance_counterexample:
  "noteLoop LittleEndian 4 40 4096 twoNotes [] = Some (Found ''id!'') \<and>
   noteLoop LittleEndian 4 (40 - 24) (4096 + 24) (drop 24 twoNotes) [] = Some (Next []) \<and>
   noteLoop LittleEndian 4 (40 - 20) (4096 + 20) (drop 20 twoNotes) [] = Some (Found ''id!'')"
  by code_simp

theorem noteLoop_advance_witness:
  "word_of_nat offsetToNoteData \<le> (40 :: 64 word) \<and>
   offsetToNoteData \<le> length twoNotes \<and>
   Uint32 LittleEndian twoNotes = Some 4 \<and>
   Uint32 LittleEndian (drop sizeOfNoteNameAndValue twoNotes) = Some 4 \<and>
   Uint32 LittleEndian (drop 8 twoNotes) = Some 1 \<and>
   (20 :: 64 word) < 40 \<and>
   noteLoop LittleEndian 4 40 4096 twoNotes [] =
     noteLoop LittleEndian 4 20 4116 (drop 20 twoNotes) [] \<and>
   unat (4116 :: 64 word) = (4116 + 2 ^ 2 - 1) div 2 ^ 2 * 2 ^ 2"
proof -
  have 1: "word_of_nat offsetToNoteData \<le> (40 :: 64 word)"
    by (simp add: offsetToNoteData_def)
  have 2: "offsetToNoteData \<le> length twoNotes"
    by (simp add: offsetToNoteData_def twoNotes_def)
  have 3: "Uint32 LittleEndian twoNotes = Some 4"
    by (simp add: Uint32_def twoNotes_def)
  have 4: "Uint32 LittleEndian (drop sizeOfNoteNameAndValue twoNotes) = Some 4"
    by (simp add: Uint32_def twoNotes_def sizeOfNoteNameAndValue_def)
  have 5: "Uint32 LittleEndian (drop 8 twoNotes) = Some 1"
    by (simp add: Uint32_def twoNotes_def)
  have 6: "\<not> (noteFits twoNotes 4 4 \<and> (1 :: 32 word) = elfGoBuildIDTag \<and>
             take sizeOfNoteNameAndValue (drop offsetToNoteFields twoNotes) = elfGoNote)"
    by (simp add: elfGoBuildIDTag_def)
  have 7: "(if noteFits twoNotes 4 4 \<and> (1 :: 32 word) = gnuBuildIDTag \<and>
             take sizeOfNoteNameAndValue (drop offsetToNoteFields twoNotes) = elfGNUNote
          then noteValue twoNotes 4 else Some []) = Some []"
    by (simp add: gnuBuildIDTag_def)
  have 8: "(20 :: 64 word) = ucast (12 + (((4 :: 32 word) + 3) AND NOT 3) + ((4 + 3) AND NOT 3))"
    by simp
  have 9: "(20 :: 64 word) < 40"
    by simp
  have 10: "(0 :: 64 word) = (if (4 :: 64 word) \<noteq> 0
                then ((4096 + 20 + 4 - 1) AND NOT (4 - 1)) - (4096 + 20) else 0)"
    by simp
  have 11: "unat ((20 :: 64 word) + 0) \<le> length twoNotes"
    by (simp add: twoNotes_def)
  have n: "(4 :: 64 word) = 2 ^ 2" "(2 :: nat) < 64"
    "unat ((4096 :: 64 word) + 20) + 2 ^ 2 \<le> 2 ^ 64"
    by simp_all
  from noteLoop_advance [OF 1 2 3 4 5 6 7 8 9 10 11] n
  have "noteLoop LittleEndian 4 40 4096 twoNotes [] =
          noteLoop LittleEndian 4 (40 - (20 + 0)) (4096 + 20 + 0)
            (drop (unat ((20 :: 64 word) + 0)) twoNotes) []"
    and "unat ((4096 :: 64 word) + 20 + 0) =
          (unat ((4096 :: 64 word) + 20) + 2 ^ 2 - 1) div 2 ^ 2 * 2 ^ 2"
    by blast+
  with 1 2 3 4 5 9 show ?thesis
    by simp
qed

lemma goNote_walk: "noteLoop LittleEndian 4 20 50000 goNote [] = Some (Found ''id!'')"
  by (subst noteLoop.simps)
     (simp add: goNote_def Uint32_def offsetToNoteData_def sizeOfNoteNameAndValue_def
        offsetToNoteFields_def noteFits_def noteValue_def elfGoBuildIDTag_def elfGoNote_def)

lemma lateNoteFile_getBuildID:
  "getBuildID (fixedNewFile \<lparr>ByteOrder = LittleEndian, Progs = [lateNoteProg]\<rparr>) lateNoteFile =
     Some (Ok ''id!'', lateNoteFile\<lparr>cursor := 50020,
        iolog := [CallReadAt 8 0, CallReadFull readSize, CallSeek 50000, CallReadFull 20]\<rparr>)"
  by (simp add: getBuildID_def ReadAt_def ReadFull_def Seek_def Let_def lateNoteFile_def
        elfPrefix_def ELFCLASS64_def ELFCLASS32_def archiveMagic_def bigArchiveMagic_def
        readSize_def HasPrefix_def readELF_def EI_CLASS_def zeroSectionHeaders_def
        fixedNewFile_def lateNoteProg_def PT_NOTE_def offsetToNoteData_def scanSegment_def
        loadNote_def maxAlloc_def goNote_walk [unfolded goNote_def] goNote_def)

theorem getBuildID_idempotent_witness:
  "getBuildID (fixedNewFile \<lparr>ByteOrder = LittleEndian, Progs = [lateNoteProg]\<rparr>) lateNoteFile =
     Some (Ok ''id!'', lateNoteFile\<lparr>cursor := 50020,
        iolog := [CallReadAt 8 0, CallReadFull readSize, CallSeek 50000, CallReadFull 20]\<rparr>) \<and>
   (\<exists>r''. getBuildID (fixedNewFile \<lparr>ByteOrder = LittleEndian, Progs = [lateNoteProg]\<rparr>)
            (lateNoteFile\<lparr>cursor := 50020,
               iolog := [CallReadAt 8 0, CallReadFull readSize, CallSeek 50000, CallReadFull 20],
               cursor := cursor lateNoteFile\<rparr>) = Some (Ok ''id!'', r''))"
  using lateNoteFile_getBuildID getBuildID_idempotent [OF lateNoteFile_getBuildID]
  by simp



end
